theory Spec2Isabelle
  imports Main "HOL-Library.Word"
begin

section \<open>JavaScript values and strings\<close>

text \<open>
  The extension is TypeScript. A value of type \<open>T | undefined\<close> is an \<open>option\<close>;
  a thrown \<open>Error\<close> is a record of its \<open>name\<close> and \<open>message\<close>. Text that is
  only concatenated, compared and searched for an ASCII separator is a \<open>string\<close>.
  Where the code counts \<open>value.length\<close> the text is the list of its UTF-16 code
  units, which is what JavaScript counts and what a regular expression without the
  \<open>u\<close> flag reads.
\<close>

record js_error =
  err_name :: string
  err_message :: string

text \<open>\<open>new Error(msg)\<close>: the name of a plain error is \<open>Error\<close>.\<close>

definition new_Error :: "string \<Rightarrow> js_error" where
  "new_Error msg = \<lparr>err_name = ''Error'', err_message = msg\<rparr>"

type_synonym utf16 = "16 word list"

text \<open>A value in a condition: \<open>undefined\<close> and the empty string are falsy, every
  other string is truthy.\<close>

definition truthy :: "string option \<Rightarrow> bool" where
  "truthy v = (case v of None \<Rightarrow> False | Some s \<Rightarrow> s \<noteq> [])"

text \<open>\<open>a || b\<close> on two optional strings.\<close>

definition js_or :: "string option \<Rightarrow> string option \<Rightarrow> string option" where
  "js_or a b = (if truthy a then a else b)"

text \<open>\<open>s.endsWith(p)\<close>.\<close>

definition endsWith :: "string \<Rightarrow> string \<Rightarrow> bool" where
  "endsWith s p = (length p \<le> length s \<and> drop (length s - length p) s = p)"

text \<open>\<open>s.split(sep, 1)\<close> for a non-empty separator: the array of one element, the
  text before the first occurrence of the separator (all of \<open>s\<close> when there is none).\<close>

fun before_first :: "string \<Rightarrow> string \<Rightarrow> string" where
  "before_first sep [] = []"
| "before_first sep (c # cs) =
     (if take (length sep) (c # cs) = sep then [] else c # before_first sep cs)"

definition split_limit1 :: "string \<Rightarrow> string \<Rightarrow> string list" where
  "split_limit1 s sep = [before_first sep s]"

text \<open>An array of strings in a template literal: \<open>Array.prototype.toString\<close> joins
  the elements with commas.\<close>

fun Array_toString :: "string list \<Rightarrow> string" where
  "Array_toString [] = []"
| "Array_toString [a] = a"
| "Array_toString (a # b # bs) = a @ '','' @ Array_toString (b # bs)"

text \<open>\<open>String(err)\<close> for an \<open>Error\<close> object (\<open>Error.prototype.toString\<close>).\<close>

definition Error_toString :: "js_error \<Rightarrow> string" where
  "Error_toString e =
     (if err_name e = [] then err_message e
      else if err_message e = [] then err_name e
      else err_name e @ '': '' @ err_message e)"

section \<open>The host: editor, localisation, paths\<close>

text \<open>
  The message bundle (\<open>nls.localize\<close>, a key and the values for its placeholders),
  the workspace test \<open>hasRootWorkspace\<close> and Node's \<open>path.join\<close> and
  \<open>path.basename\<close> are not part of the source files: they are parameters of every
  function that calls them.
\<close>

record host_env =
  localize :: "string \<Rightarrow> string option list \<Rightarrow> string"
  hasRootWorkspace :: bool
  path_join :: "string \<Rightarrow> string \<Rightarrow> string"
  path_basename :: "string \<Rightarrow> string"

text \<open>An argument of an editor command: a file URI (\<open>vscode.Uri.file(path)\<close>), a
  string, or an array of strings.\<close>

datatype cmd_arg = Uri_file string | Arg_string string | Arg_strings "string list"

text \<open>What the code does to the editor, in the order it does it. The type \<open>'d\<close> is
  the result of the directory differ.\<close>

datatype 'd ui_event =
    showErrorMessage string
  | appendLine string
  | showChannelOutput
  | sendException string string
  | executeCommand string "cmd_arg list"
  | console_log string
  | visualizeDifferences string string bool 'd

section \<open>Function name verification (forceFunctionCreate)\<close>

text \<open>The character classes \<open>[a-z]\<close> and \<open>[a-z0-9]\<close> on code units.\<close>

definition is_lower :: "16 word \<Rightarrow> bool" where
  "is_lower c = (0x61 \<le> c \<and> c \<le> 0x7A)"

definition is_digit :: "16 word \<Rightarrow> bool" where
  "is_digit c = (0x30 \<le> c \<and> c \<le> 0x39)"

text \<open>\<open>/^[a-z0-9]+$/.test(value)\<close>: one or more characters, all of the class, up to
  the end of the input (no \<open>m\<close> flag, so \<open>$\<close> is the end of the input only).\<close>

definition functionNameRegex :: "utf16 \<Rightarrow> bool" where
  "functionNameRegex v = (v \<noteq> [] \<and> list_all (\<lambda>c. is_lower c \<or> is_digit c) v)"

text \<open>\<open>/^[a-z]/.test(value)\<close>: the first code unit exists and is a lowercase letter.\<close>

definition functionNameStartRegex :: "utf16 \<Rightarrow> bool" where
  "functionNameStartRegex v = (case v of [] \<Rightarrow> False | c # _ \<Rightarrow> is_lower c)"

text \<open>\<open>nameVerification\<close>: each \<open>throw new Error(msg)\<close> is \<open>Inl\<close> of that error,
  the final \<open>return ''\<close> is \<open>Inr\<close> of the empty string.\<close>

definition nameVerification :: "utf16 \<Rightarrow> js_error + string" where
  "nameVerification v =
     (if length v > 47 then
        Inl (new_Error ''Function names cannot contain more than 47 characters.'')
      else if \<not> functionNameRegex v then
        Inl (new_Error ''Name must contain only lowercase letters and numbers.'')
      else if \<not> functionNameStartRegex v then
        Inl (new_Error ''Name must start with a letter.'')
      else Inr '''')"

section \<open>Configuration lookup (ConfigUtil)\<close>

datatype ConfigSource = ConfigSource_Local | ConfigSource_Global | ConfigSource_None

text \<open>\<open>ConfigValue\<close> is a JSON value, \<open>null\<close> included; \<open>ConfigValue | undefined\<close>
  is an \<open>option\<close> of it.\<close>

datatype 'v ConfigValue = Null | Value 'v

definition isNullOrUndefined :: "'v ConfigValue option \<Rightarrow> bool" where
  "isNullOrUndefined v = (v = Some Null \<or> v = None)"

definition isUndefined :: "'a option \<Rightarrow> bool" where
  "isUndefined v = (v = None)"

record ConfigFileOptions =
  isGlobal :: bool
  rootFolder :: string
  filename :: string

text \<open>
  The configuration library, the workspace and the constants module are outside the
  source files, so they are parameters. Every call made inside a \<open>try\<close> block may
  throw (\<open>Inl\<close>), because the \<open>catch\<close> clause says what the code does then. A
  configuration file and an aggregator are given by their lookup method
  (\<open>get\<close>, \<open>getPropertyValue\<close>).
\<close>

type_synonym 'v ConfigLookup = "string \<Rightarrow> js_error + 'v ConfigValue option"

record 'v config_env = host_env +
  getRootWorkspacePath :: "js_error + string"
  SF_STATE_FOLDER :: string
  SF_CONFIG_FILE :: string
  ConfigFile_create :: "ConfigFileOptions \<Rightarrow> js_error + 'v ConfigLookup"
  ConfigAggregator_create :: "js_error + 'v ConfigLookup"

text \<open>What a call does besides returning: the library calls in the order made, and the
  exceptions reported to telemetry.\<close>

datatype config_event =
    Call_getRootWorkspacePath
  | Call_ConfigFile_create ConfigFileOptions
  | Call_ConfigFile_get string
  | Call_ConfigAggregator_create
  | Call_getPropertyValue string
  | Telemetry_sendException string string

text \<open>
  \<open>ConfigUtil.getConfigValue\<close>. Each of the two blocks yields \<open>Some r\<close> when the
  function returns \<open>r\<close> from inside it and \<open>None\<close> when control falls through to
  the code after it.
\<close>

definition getConfigValue ::
  "'v config_env \<Rightarrow> string \<Rightarrow> ConfigSource option \<Rightarrow> 'v ConfigValue option \<times> config_event list"
where
  "getConfigValue env key source =
     (let (ret1, ev1) =
        (if isUndefined source \<or> source = Some ConfigSource_Local then
           (case getRootWorkspacePath env of
              Inl err \<Rightarrow>
                (Some None, [Call_getRootWorkspacePath,
                   Telemetry_sendException ''get_config_value_local'' (err_message err)])
            | Inr rootPath \<Rightarrow>
                (let opts = \<lparr>isGlobal = False,
                               rootFolder = path_join env rootPath (SF_STATE_FOLDER env),
                               filename = SF_CONFIG_FILE env\<rparr>
                 in case ConfigFile_create env opts of
                      Inl err \<Rightarrow>
                        (Some None, [Call_getRootWorkspacePath, Call_ConfigFile_create opts,
                           Telemetry_sendException ''get_config_value_local'' (err_message err)])
                    | Inr myLocalConfig \<Rightarrow>
                        (case myLocalConfig key of
                           Inl err \<Rightarrow>
                             (Some None, [Call_getRootWorkspacePath, Call_ConfigFile_create opts,
                                Call_ConfigFile_get key,
                                Telemetry_sendException ''get_config_value_local'' (err_message err)])
                         | Inr localValue \<Rightarrow>
                             (if \<not> isNullOrUndefined localValue then Some localValue else None,
                              [Call_getRootWorkspacePath, Call_ConfigFile_create opts,
                               Call_ConfigFile_get key]))))
         else (None, []))
      in case ret1 of
           Some r \<Rightarrow> (r, ev1)
         | None \<Rightarrow>
             (let (ret2, ev2) =
                (if isUndefined source \<or> source = Some ConfigSource_Global then
                   (case ConfigAggregator_create env of
                      Inl err \<Rightarrow>
                        (Some None, [Call_ConfigAggregator_create,
                           Telemetry_sendException ''get_config_value_global'' (err_message err)])
                    | Inr aggregator \<Rightarrow>
                        (case aggregator key of
                           Inl err \<Rightarrow>
                             (Some None, [Call_ConfigAggregator_create, Call_getPropertyValue key,
                                Telemetry_sendException ''get_config_value_global'' (err_message err)])
                         | Inr globalValue \<Rightarrow>
                             (if \<not> isNullOrUndefined globalValue then Some globalValue else None,
                              [Call_ConfigAggregator_create, Call_getPropertyValue key])))
                 else (None, []))
              in case ret2 of
                   Some r \<Rightarrow> (r, ev1 @ ev2)
                 | None \<Rightarrow> (None, ev1 @ ev2)))"

text \<open>\<open>ConfigUtil.getSfConfigValue\<close>, transcribed from its own source text.\<close>

definition getSfConfigValue ::
  "'v config_env \<Rightarrow> string \<Rightarrow> ConfigSource option \<Rightarrow> 'v ConfigValue option \<times> config_event list"
where
  "getSfConfigValue env key source =
     (let (ret1, ev1) =
        (if isUndefined source \<or> source = Some ConfigSource_Local then
           (case getRootWorkspacePath env of
              Inl err \<Rightarrow>
                (Some None, [Call_getRootWorkspacePath,
                   Telemetry_sendException ''get_config_value_local'' (err_message err)])
            | Inr rootPath \<Rightarrow>
                (let opts = \<lparr>isGlobal = False,
                               rootFolder = path_join env rootPath (SF_STATE_FOLDER env),
                               filename = SF_CONFIG_FILE env\<rparr>
                 in case ConfigFile_create env opts of
                      Inl err \<Rightarrow>
                        (Some None, [Call_getRootWorkspacePath, Call_ConfigFile_create opts,
                           Telemetry_sendException ''get_config_value_local'' (err_message err)])
                    | Inr myLocalConfig \<Rightarrow>
                        (case myLocalConfig key of
                           Inl err \<Rightarrow>
                             (Some None, [Call_getRootWorkspacePath, Call_ConfigFile_create opts,
                                Call_ConfigFile_get key,
                                Telemetry_sendException ''get_config_value_local'' (err_message err)])
                         | Inr localValue \<Rightarrow>
                             (if \<not> isNullOrUndefined localValue then Some localValue else None,
                              [Call_getRootWorkspacePath, Call_ConfigFile_create opts,
                               Call_ConfigFile_get key]))))
         else (None, []))
      in case ret1 of
           Some r \<Rightarrow> (r, ev1)
         | None \<Rightarrow>
             (let (ret2, ev2) =
                (if isUndefined source \<or> source = Some ConfigSource_Global then
                   (case ConfigAggregator_create env of
                      Inl err \<Rightarrow>
                        (Some None, [Call_ConfigAggregator_create,
                           Telemetry_sendException ''get_config_value_global'' (err_message err)])
                    | Inr aggregator \<Rightarrow>
                        (case aggregator key of
                           Inl err \<Rightarrow>
                             (Some None, [Call_ConfigAggregator_create, Call_getPropertyValue key,
                                Telemetry_sendException ''get_config_value_global'' (err_message err)])
                         | Inr globalValue \<Rightarrow>
                             (if \<not> isNullOrUndefined globalValue then Some globalValue else None,
                              [Call_ConfigAggregator_create, Call_getPropertyValue key])))
                 else (None, []))
              in case ret2 of
                   Some r \<Rightarrow> (r, ev1 @ ev2)
                 | None \<Rightarrow> (None, ev1 @ ev2)))"

text \<open>\<open>ConfigUtil.getConfigSource\<close>.\<close>

definition getConfigSource :: "'v config_env \<Rightarrow> string \<Rightarrow> ConfigSource \<times> config_event list" where
  "getConfigSource env key =
     (let (value1, ev1) = getSfConfigValue env key (Some ConfigSource_Local)
      in if \<not> isNullOrUndefined value1 then (ConfigSource_Local, ev1)
         else let (value2, ev2) = getSfConfigValue env key (Some ConfigSource_Global)
              in if \<not> isNullOrUndefined value2 then (ConfigSource_Global, ev1 @ ev2)
                 else (ConfigSource_None, ev1 @ ev2))"

text \<open>
  The two lookups the specification speaks of, as results of their own: the local workspace
  configuration file read at the key, and the global aggregator read at the key. Each is
  \<open>Inr v\<close> when the library calls complete and yield \<open>v\<close>, and \<open>Inl\<close> when one of
  them throws.
\<close>

definition local_lookup :: "'v config_env \<Rightarrow> string \<Rightarrow> js_error + 'v ConfigValue option" where
  "local_lookup env key =
     (case getRootWorkspacePath env of
        Inl err \<Rightarrow> Inl err
      | Inr rootPath \<Rightarrow>
          (case ConfigFile_create env
                  \<lparr>isGlobal = False,
                   rootFolder = path_join env rootPath (SF_STATE_FOLDER env),
                   filename = SF_CONFIG_FILE env\<rparr> of
             Inl err \<Rightarrow> Inl err
           | Inr cfg \<Rightarrow> cfg key))"

definition global_lookup :: "'v config_env \<Rightarrow> string \<Rightarrow> js_error + 'v ConfigValue option" where
  "global_lookup env key =
     (case ConfigAggregator_create env of
        Inl err \<Rightarrow> Inl err
      | Inr aggregator \<Rightarrow> aggregator key)"

text \<open>A lookup yields a value that is neither \<open>null\<close> nor \<open>undefined\<close>.\<close>

definition yields_value :: "js_error + 'v ConfigValue option \<Rightarrow> bool" where
  "yields_value r = (case r of Inr (Some (Value v)) \<Rightarrow> True | _ \<Rightarrow> False)"

section \<open>Source diff (forceSourceDiff)\<close>

subsection \<open>The command builder\<close>

text \<open>
  Modelled from the spec: the class \<open>SfdxCommandBuilder\<close> and the \<open>Command\<close> it
  builds belong to the utilities package, which is not among the source files. The spec
  says of the CLI only that it is an external tool invoked as a subprocess whose JSON
  output is parsed, so the builder is modelled as the record of what it was asked for,
  in the order of the calls: a plain argument (\<open>withArg\<close>), a flag with its value
  (\<open>withFlag\<close>), the request for JSON output (\<open>withJson\<close>), and the description
  and log name set by \<open>withDescription\<close> and \<open>withLogName\<close>.
\<close>

datatype CommandPart = Arg string | Flag string string | Json

record Command =
  cmd_description :: "string option"
  cmd_logName :: "string option"
  cmd_args :: "CommandPart list"

definition SfdxCommandBuilder_new :: Command where
  "SfdxCommandBuilder_new = \<lparr>cmd_description = None, cmd_logName = None, cmd_args = []\<rparr>"

definition withDescription :: "string \<Rightarrow> Command \<Rightarrow> Command" where
  "withDescription d b = b\<lparr>cmd_description := Some d\<rparr>"

definition withArg :: "string \<Rightarrow> Command \<Rightarrow> Command" where
  "withArg a b = b\<lparr>cmd_args := cmd_args b @ [Arg a]\<rparr>"

definition withLogName :: "string \<Rightarrow> Command \<Rightarrow> Command" where
  "withLogName n b = b\<lparr>cmd_logName := Some n\<rparr>"

definition withFlag :: "string \<Rightarrow> string \<Rightarrow> Command \<Rightarrow> Command" where
  "withFlag n v b = b\<lparr>cmd_args := cmd_args b @ [Flag n v]\<rparr>"

definition withJson :: "Command \<Rightarrow> Command" where
  "withJson b = b\<lparr>cmd_args := cmd_args b @ [Json]\<rparr>"

definition CommandBuilder_build :: "Command \<Rightarrow> Command" where
  "CommandBuilder_build b = b"

text \<open>\<open>ForceSourceDiffExecutor.build\<close>: the chain of builder calls, in source order.\<close>

definition build :: "host_env \<Rightarrow> string \<Rightarrow> Command" where
  "build env filePath =
     (let commandBuilder =
        withJson
          (withFlag ''--sourcepath'' filePath
            (withLogName ''force_source_diff''
              (withArg ''force:source:diff''
                (withDescription (localize env ''force_source_diff_text'' [])
                  SfdxCommandBuilder_new))))
      in CommandBuilder_build commandBuilder)"

text \<open>The plain arguments of a command, the values given for a flag, and whether JSON
  output was requested.\<close>

fun plain_args :: "CommandPart list \<Rightarrow> string list" where
  "plain_args [] = []"
| "plain_args (Arg a # ps) = a # plain_args ps"
| "plain_args (p # ps) = plain_args ps"

fun flag_values :: "string \<Rightarrow> CommandPart list \<Rightarrow> string list" where
  "flag_values n [] = []"
| "flag_values n (Flag m v # ps) = (if m = n then v # flag_values n ps else flag_values n ps)"
| "flag_values n (p # ps) = flag_values n ps"

definition requests_json :: "CommandPart list \<Rightarrow> bool" where
  "requests_json ps = (Json \<in> set ps)"

subsection \<open>The response of the CLI\<close>

record DiffResult =
  dr_remote :: string
  dr_local :: string
  dr_fileName :: string

record DiffSuccessResponse =
  success_status :: int
  success_result :: DiffResult

record DiffErrorResponse =
  error_name :: string
  error_message :: string

text \<open>
  \<open>DiffResultParser\<close> is outside the source files. What \<open>handleDiffResponse\<close>
  sees of it: the constructor, called inside the \<open>try\<close> block, either throws or gives
  a parser, and a parser answers \<open>getSuccessResponse()\<close> and
  \<open>getErrorResponse()\<close>, each with a response or \<open>undefined\<close>.
  \<open>OrgAuthInfo.getDefaultUsernameOrAlias\<close> is outside the source files as well; it
  is awaited inside the \<open>try\<close> block, so its promise either resolves with a name or
  \<open>undefined\<close> (\<open>Inr\<close>) or rejects with an error (\<open>Inl\<close>) that reaches
  the \<open>catch\<close> clause.
\<close>

datatype DiffResultParser =
    Parser_throws js_error
  | Parser "DiffSuccessResponse option" "DiffErrorResponse option"

record 'd diff_env = host_env +
  new_DiffResultParser :: "string \<Rightarrow> DiffResultParser"
  getDefaultUsernameOrAlias :: "bool \<Rightarrow> js_error + string option"
  executeCommand_rejects :: "string \<Rightarrow> cmd_arg list \<Rightarrow> js_error option"
  differ_diff :: "string \<Rightarrow> string \<Rightarrow> 'd"

text \<open>The \<open>catch (e)\<close> clause of \<open>handleDiffResponse\<close>.\<close>

definition handleDiffResponse_catch :: "js_error \<Rightarrow> 'd ui_event list" where
  "handleDiffResponse_catch e =
     [showErrorMessage (err_message e),
      appendLine (err_message e),
      showChannelOutput,
      sendException (err_name e) (err_message e)]"

text \<open>\<open>handleDiffResponse(exitCode, stdOut)\<close>. The command \<open>vscode.diff\<close> is not
  awaited, so nothing it does later reaches the \<open>catch\<close> clause.\<close>

definition handleDiffResponse ::
  "('d, 'x) diff_env_scheme \<Rightarrow> int option \<Rightarrow> string \<Rightarrow> 'd ui_event list"
where
  "handleDiffResponse env exitCode stdOut =
     (if exitCode = Some 127 then
        handleDiffResponse_catch
          (new_Error (localize env ''force_source_diff_command_not_found'' []))
      else
        (case new_DiffResultParser env stdOut of
           Parser_throws e \<Rightarrow> handleDiffResponse_catch e
         | Parser diffParserSuccess diffParserError \<Rightarrow>
             (case diffParserSuccess of
                Some success \<Rightarrow>
                  (let diffResult = success_result success;
                       remote = Uri_file (dr_remote diffResult);
                       local = Uri_file (dr_local diffResult);
                       filename = dr_fileName diffResult
                   in case (if hasRootWorkspace env then getDefaultUsernameOrAlias env False
                            else Inr None) of
                        Inl e \<Rightarrow> handleDiffResponse_catch e
                      | Inr defaultUsernameorAlias \<Rightarrow>
                          [executeCommand ''vscode.diff''
                             [remote, local,
                              Arg_string (localize env ''force_source_diff_title''
                                [defaultUsernameorAlias, Some filename, Some filename])]])
              | None \<Rightarrow>
                  (case diffParserError of
                     Some err \<Rightarrow> [appendLine (error_message err), showChannelOutput]
                   | None \<Rightarrow> []))))"

text \<open>The lookup of the default username or alias as \<open>handleDiffResponse\<close> makes
  it: only when there is a root workspace, and \<open>undefined\<close> otherwise.\<close>

definition default_username_lookup :: "('d, 'x) diff_env_scheme \<Rightarrow> js_error + string option" where
  "default_username_lookup env =
     (if hasRootWorkspace env then getDefaultUsernameOrAlias env False else Inr None)"

text \<open>An event that opens a diff view.\<close>

definition opens_diff_view :: "'d ui_event \<Rightarrow> bool" where
  "opens_diff_view ev = (case ev of executeCommand c _ \<Rightarrow> c = ''vscode.diff'' | _ \<Rightarrow> False)"

subsection \<open>The metadata cache\<close>

text \<open>A \<open>SourceComponent\<close> is given by the file paths \<open>walkContent()\<close> yields.\<close>

record SourceComponent =
  walkContent :: "string list"

record MetadataContext =
  baseDirectory :: string
  commonRoot :: string
  components :: "SourceComponent list option"

record MetadataCacheResult =
  selectedPath :: string
  selectedIsDirectory :: bool
  cachePropPath :: "string option"
  cache :: MetadataContext
  project :: MetadataContext

text \<open>An \<open>async\<close> function ends resolved, or rejected with an error.\<close>

datatype outcome = Resolved | Rejected string

text \<open>\<open>diffOneFile\<close>, the loop over \<open>remoteComponent.walkContent()\<close>: the first
  path that ends with the file part opens the diff view and ends the function; a
  rejection of the awaited command is caught and logged.\<close>

fun diffOneFile_loop ::
  "('d, 'x) diff_env_scheme \<Rightarrow> string \<Rightarrow> string \<Rightarrow> string list \<Rightarrow> 'd ui_event list"
where
  "diffOneFile_loop env localFile filePart [] = []"
| "diffOneFile_loop env localFile filePart (filePath # rest) =
     (if endsWith filePath filePart then
        (let args = [Uri_file filePath, Uri_file localFile,
                     Arg_string ''Source File Diff ( Local File / Org File )'']
         in executeCommand ''vscode.diff'' args #
            (case executeCommand_rejects env ''vscode.diff'' args of
               None \<Rightarrow> []
             | Some err \<Rightarrow> [console_log (''ERROR: '' @ Error_toString err)]))
      else diffOneFile_loop env localFile filePart rest)"

definition diffOneFile ::
  "('d, 'x) diff_env_scheme \<Rightarrow> string \<Rightarrow> SourceComponent \<Rightarrow> 'd ui_event list"
where
  "diffOneFile env localFile remoteComponent =
     (let filePart = path_basename env localFile
      in diffOneFile_loop env localFile filePart (walkContent remoteComponent))"

text \<open>A template literal prints \<open>undefined\<close> for an absent value.\<close>

definition template_string :: "string option \<Rightarrow> string" where
  "template_string v = (case v of None \<Rightarrow> ''undefined'' | Some s \<Rightarrow> s)"

text \<open>
  \<open>handleCacheResults(cache)\<close>. An array is truthy even when empty, and
  \<open>components[0]\<close> of an empty array is \<open>undefined\<close>: then
  \<open>remoteComponent.walkContent()\<close> in \<open>diffOneFile\<close> throws a \<open>TypeError\<close>
  and the function ends rejected.
\<close>

definition handleCacheResults ::
  "('d, 'x) diff_env_scheme \<Rightarrow> MetadataCacheResult option \<Rightarrow> 'd ui_event list \<times> outcome"
where
  "handleCacheResults env cache_opt =
     (case cache_opt of
        Some c \<Rightarrow>
          (let log = console_log (''PROF-FILE: '' @ template_string (cachePropPath c))
           in if \<not> selectedIsDirectory c \<and> components (cache c) \<noteq> None then
                (case components (cache c) of
                   Some (first # _) \<Rightarrow> (log # diffOneFile env (selectedPath c) first, Resolved)
                 | _ \<Rightarrow> ([log], Rejected ''TypeError''))
              else if selectedIsDirectory c then
                (let localPath = path_join env (baseDirectory (project c)) (commonRoot (project c));
                     remotePath = path_join env (baseDirectory (cache c)) (commonRoot (cache c));
                     diffs = differ_diff env localPath remotePath
                 in ([log, visualizeDifferences ''PDTDevHub2 - File Diffs'' ''PDTDevHub2'' True diffs],
                     Resolved))
              else ([log], Resolved))
      | None \<Rightarrow>
          ([showErrorMessage ''Selected components are not available in the org''], Resolved))"

section \<open>The org picker (OrgList)\<close>

record OrgInfo =
  org_username :: "string option"
  org_alias :: "string option"

datatype StatusBarAlignment = Left | Right

record StatusBarItem =
  sb_alignment :: StatusBarAlignment
  sb_priority :: int
  sb_text :: string
  sb_command :: "string option"
  sb_tooltip :: "string option"
  sb_visible :: bool

text \<open>An authorization as listed (\<open>OrgAuthorization\<close>, \<open>FileInfo\<close>), and the fields
  \<open>AuthInfo\<close> reports for a username (\<open>AuthFields\<close>); only the fields the code
  reads.\<close>

record OrgAuthorization =
  auth_username :: string
  auth_aliases :: "string list option"

record AuthFields =
  scratchAdminUsername :: "string option"
  devHubUsername :: "string option"
  expirationDate :: "string option"

text \<open>
  The parameters of the org picker: the authorization library
  (\<open>AuthInfo.listAllAuthorizations\<close>, which may reject, and the fields of
  \<open>AuthInfo.create({username})\<close>), \<open>OrgAuthInfo\<close>, the clock (\<open>new Date()\<close> as a
  time value, \<open>new Date(text)\<close> as a time value or \<open>None\<close> for an invalid date) and
  the user's answer to a quick-pick.
\<close>

record org_env = host_env +
  getDefaultDevHubUsernameOrAlias :: "bool \<Rightarrow> string option"
  getUsername :: "string \<Rightarrow> string"
  listAllAuthorizations :: "js_error + OrgAuthorization list"
  AuthInfo_getFields :: "string \<Rightarrow> AuthFields"
  today :: int
  new_Date :: "string \<Rightarrow> int option"
  showQuickPick :: "string list \<Rightarrow> string option"

definition createStatusBarItem :: "StatusBarAlignment \<Rightarrow> int \<Rightarrow> StatusBarItem" where
  "createStatusBarItem a p =
     \<lparr>sb_alignment = a, sb_priority = p, sb_text = [], sb_command = None,
      sb_tooltip = None, sb_visible = False\<rparr>"

text \<open>\<open>OrgList.displayDefaultUsername\<close>.\<close>

definition displayDefaultUsername ::
  "'x host_env_scheme \<Rightarrow> string option \<Rightarrow> StatusBarItem \<Rightarrow> StatusBarItem"
where
  "displayDefaultUsername env defaultUsernameOrAlias statusBarItem =
     (case defaultUsernameOrAlias of
        Some s \<Rightarrow>
          (if s \<noteq> [] then statusBarItem\<lparr>sb_text := ''$(plug) '' @ s\<rparr>
           else statusBarItem\<lparr>sb_text := localize env ''missing_default_org'' []\<rparr>)
      | None \<Rightarrow> statusBarItem\<lparr>sb_text := localize env ''missing_default_org'' []\<rparr>)"

text \<open>The callback the constructor registers with \<open>workspaceContext.onOrgChange\<close>.\<close>

definition onOrgChange ::
  "'x host_env_scheme \<Rightarrow> OrgInfo \<Rightarrow> StatusBarItem \<Rightarrow> StatusBarItem"
where
  "onOrgChange env orgInfo statusBarItem =
     displayDefaultUsername env (js_or (org_alias orgInfo) (org_username orgInfo)) statusBarItem"

text \<open>The constructor: the status bar item it leaves, given the workspace context.\<close>

definition OrgList_new :: "'x host_env_scheme \<Rightarrow> OrgInfo \<Rightarrow> StatusBarItem" where
  "OrgList_new env workspaceContext =
     (let statusBarItem = createStatusBarItem Left 49;
          statusBarItem = statusBarItem\<lparr>sb_command := Some ''sfdx.force.set.default.org''\<rparr>;
          statusBarItem = statusBarItem
            \<lparr>sb_tooltip := Some (localize env ''status_bar_org_picker_tooltip'' [])\<rparr>;
          statusBarItem = statusBarItem\<lparr>sb_visible := True\<rparr>;
          username = org_username workspaceContext;
          alias = org_alias workspaceContext
      in displayDefaultUsername env (js_or alias username) statusBarItem)"

text \<open>\<open>OrgList.getOrgAuthorizations\<close>: a rejection becomes \<open>null\<close>, and so does an
  empty list.\<close>

definition getOrgAuthorizations :: "'x org_env_scheme \<Rightarrow> OrgAuthorization list option" where
  "getOrgAuthorizations env =
     (case listAllAuthorizations env of
        Inl err \<Rightarrow> None
      | Inr orgAuthorizations \<Rightarrow>
          (if length orgAuthorizations = 0 then None else Some orgAuthorizations))"

definition getDefaultDevHubUsernameorAlias :: "'x org_env_scheme \<Rightarrow> string option" where
  "getDefaultDevHubUsernameorAlias env =
     (if hasRootWorkspace env then getDefaultDevHubUsernameOrAlias env False else None)"

text \<open>The cross mark \<open>String.fromCodePoint(0x274c)\<close>, as its UTF-8 bytes.\<close>

definition cross_mark :: string where
  "cross_mark = [CHR 0xE2, CHR 0x9D, CHR 0x8C]"

text \<open>
  The loop of \<open>OrgList.filterAuthInfo\<close> over the authorizations, with \<open>authList\<close>
  as the list pushed to. A comparison with an invalid date is false.
\<close>

fun filterAuthInfo_loop ::
  "'x org_env_scheme \<Rightarrow> string option \<Rightarrow> string list \<Rightarrow> OrgAuthorization list \<Rightarrow> string list"
where
  "filterAuthInfo_loop env defaultDevHubUsername authList [] = authList"
| "filterAuthInfo_loop env defaultDevHubUsername authList (authInfo # rest) =
     (let authFields = AuthInfo_getFields env (auth_username authInfo)
      in if truthy (scratchAdminUsername authFields) then
           filterAuthInfo_loop env defaultDevHubUsername authList rest
         else if truthy (devHubUsername authFields)
                 \<and> devHubUsername authFields \<noteq> defaultDevHubUsername then
           filterAuthInfo_loop env defaultDevHubUsername authList rest
         else
           (let aliases = auth_aliases authInfo;
                isExpired =
                  (if truthy (expirationDate authFields) then
                     (case expirationDate authFields of
                        Some d \<Rightarrow>
                          (case new_Date env d of Some t \<Rightarrow> today env \<ge> t | None \<Rightarrow> False)
                      | None \<Rightarrow> False)
                   else False);
                authListItem =
                  (case aliases of
                     Some as \<Rightarrow>
                       (if length as > 0
                        then Array_toString as @ '' - '' @ auth_username authInfo
                        else auth_username authInfo)
                   | None \<Rightarrow> auth_username authInfo);
                authListItem =
                  (if isExpired
                   then authListItem @ '' - '' @ localize env ''org_expired'' [] @ '' '' @ cross_mark
                   else authListItem)
            in filterAuthInfo_loop env defaultDevHubUsername (authList @ [authListItem]) rest))"

definition filterAuthInfo :: "'x org_env_scheme \<Rightarrow> OrgAuthorization list \<Rightarrow> string list" where
  "filterAuthInfo env authInfoObjects =
     (let defaultDevHubUsernameorAlias = getDefaultDevHubUsernameorAlias env;
          defaultDevHubUsername =
            (if truthy defaultDevHubUsernameorAlias
             then map_option (getUsername env) defaultDevHubUsernameorAlias
             else None)
      in filterAuthInfo_loop env defaultDevHubUsername [] authInfoObjects)"

definition updateOrgList :: "'x org_env_scheme \<Rightarrow> string list option" where
  "updateOrgList env =
     (case getOrgAuthorizations env of
        None \<Rightarrow> None
      | Some orgAuthorizations \<Rightarrow> Some (filterAuthInfo env orgAuthorizations))"

datatype 'a response = CANCEL | CONTINUE 'a

text \<open>The five fixed entries of the quick-pick, and the whole list shown.\<close>

definition fixed_entries :: "'x host_env_scheme \<Rightarrow> string list" where
  "fixed_entries env =
     [''$(plus) '' @ localize env ''force_auth_web_login_authorize_org_text'' [],
      ''$(plus) '' @ localize env ''force_auth_web_login_authorize_dev_hub_text'' [],
      ''$(plus) '' @ localize env ''force_org_create_default_scratch_org_text'' [],
      ''$(plus) '' @ localize env ''force_auth_access_token_authorize_org_text'' [],
      ''$(plus) '' @ localize env ''force_org_list_clean_text'' []]"

definition quickPickList :: "'x org_env_scheme \<Rightarrow> string list" where
  "quickPickList env =
     (case updateOrgList env of
        Some authInfoList \<Rightarrow> fixed_entries env @ authInfoList
      | None \<Rightarrow> fixed_entries env)"

text \<open>\<open>OrgList.setDefaultOrg\<close>: the response and the editor commands dispatched. The
  test \<open>!selection\<close> holds for \<open>undefined\<close> and for the empty string; the
  \<open>switch\<close> takes the first case equal to the selection.\<close>

definition setDefaultOrg :: "'x org_env_scheme \<Rightarrow> unit response \<times> 'd ui_event list" where
  "setDefaultOrg env =
     (let selection = showQuickPick env (quickPickList env)
      in if \<not> truthy selection then (CANCEL, [])
         else
           (case selection of
              None \<Rightarrow> (CANCEL, [])
            | Some sel \<Rightarrow>
                if sel = ''$(plus) '' @ localize env ''force_auth_web_login_authorize_org_text'' []
                then (CONTINUE (), [executeCommand ''sfdx.force.auth.web.login'' []])
                else if sel = ''$(plus) '' @ localize env ''force_auth_web_login_authorize_dev_hub_text'' []
                then (CONTINUE (), [executeCommand ''sfdx.force.auth.dev.hub'' []])
                else if sel = ''$(plus) '' @ localize env ''force_org_create_default_scratch_org_text'' []
                then (CONTINUE (), [executeCommand ''sfdx.force.org.create'' []])
                else if sel = ''$(plus) '' @ localize env ''force_auth_access_token_authorize_org_text'' []
                then (CONTINUE (), [executeCommand ''sfdx.force.auth.accessToken'' []])
                else if sel = ''$(plus) '' @ localize env ''force_org_list_clean_text'' []
                then (CONTINUE (), [executeCommand ''sfdx.force.org.list.clean'' []])
                else
                  (let usernameOrAlias = split_limit1 sel '' - ''
                   in (CONTINUE (), [executeCommand ''sfdx.force.config.set''
                                       [Arg_strings usernameOrAlias]]))))"

subsection \<open>The notions the statements about the org picker use\<close>

text \<open>The default Dev Hub username as \<open>filterAuthInfo\<close> resolves it: the username
  of the configured Dev Hub username or alias, when there is a workspace and one is
  configured.\<close>

definition resolved_devhub :: "'x org_env_scheme \<Rightarrow> string option" where
  "resolved_devhub env =
     (case getDefaultDevHubUsernameorAlias env of
        None \<Rightarrow> None
      | Some a \<Rightarrow> if a = [] then None else Some (getUsername env a))"

text \<open>An authorization is left out: \<open>AuthInfo\<close> reports a non-empty
  \<open>scratchAdminUsername\<close>, or a non-empty \<open>devHubUsername\<close> other than the
  resolved default.\<close>

definition org_excluded :: "'x org_env_scheme \<Rightarrow> OrgAuthorization \<Rightarrow> bool" where
  "org_excluded env a =
     (let f = AuthInfo_getFields env (auth_username a)
      in (case scratchAdminUsername f of None \<Rightarrow> False | Some s \<Rightarrow> s \<noteq> [])
         \<or> (case devHubUsername f of
               None \<Rightarrow> False
             | Some d \<Rightarrow> d \<noteq> [] \<and> Some d \<noteq> resolved_devhub env))"

text \<open>The exclusion read with "reports" and "is defined" as "is not \<open>undefined\<close>".\<close>

definition org_excluded_if_defined :: "'x org_env_scheme \<Rightarrow> OrgAuthorization \<Rightarrow> bool" where
  "org_excluded_if_defined env a =
     (let f = AuthInfo_getFields env (auth_username a)
      in scratchAdminUsername f \<noteq> None
         \<or> (devHubUsername f \<noteq> None \<and> devHubUsername f \<noteq> resolved_devhub env))"

text \<open>The expiration date of the org is on or before today: it is a valid date whose
  time value is at most that of \<open>new Date()\<close>.\<close>

definition org_expired :: "'x org_env_scheme \<Rightarrow> OrgAuthorization \<Rightarrow> bool" where
  "org_expired env a =
     (case expirationDate (AuthInfo_getFields env (auth_username a)) of
        None \<Rightarrow> False
      | Some d \<Rightarrow> (case new_Date env d of None \<Rightarrow> False | Some t \<Rightarrow> d \<noteq> [] \<and> t \<le> today env))"

definition has_aliases :: "OrgAuthorization \<Rightarrow> bool" where
  "has_aliases a = (case auth_aliases a of None \<Rightarrow> False | Some as \<Rightarrow> as \<noteq> [])"

text \<open>The aliases as text (joined with commas).\<close>

definition aliases_text :: "OrgAuthorization \<Rightarrow> string" where
  "aliases_text a = (case auth_aliases a of None \<Rightarrow> [] | Some as \<Rightarrow> Array_toString as)"

text \<open>What identifies the org in its entry: the alias(es) when present, the username
  otherwise.\<close>

definition org_lead :: "OrgAuthorization \<Rightarrow> string" where
  "org_lead a = (if has_aliases a then aliases_text a else auth_username a)"

definition expired_marker :: "'x host_env_scheme \<Rightarrow> string" where
  "expired_marker env = '' - '' @ localize env ''org_expired'' [] @ '' '' @ cross_mark"

text \<open>The entry of an org in the quick-pick.\<close>

definition org_entry :: "'x org_env_scheme \<Rightarrow> OrgAuthorization \<Rightarrow> string" where
  "org_entry env a =
     (if has_aliases a then aliases_text a @ '' - '' @ auth_username a else auth_username a)
     @ (if org_expired env a then expired_marker env else [])"

text \<open>
  The conditions under which the quick-pick is read. Every listed authorization has a
  non-empty username: the list comes from the authorization files, and the
  authorization library makes no \<open>AuthInfo\<close> for an empty username. The editor
  answers a quick-pick with one of the items shown, or with \<open>undefined\<close> when it is
  dismissed.
\<close>

definition usernames_nonempty :: "'x org_env_scheme \<Rightarrow> bool" where
  "usernames_nonempty env =
     (case listAllAuthorizations env of
        Inl err \<Rightarrow> True
      | Inr auths \<Rightarrow> list_all (\<lambda>a. auth_username a \<noteq> []) auths)"

definition picks_shown_item :: "'x org_env_scheme \<Rightarrow> bool" where
  "picks_shown_item env =
     (case showQuickPick env (quickPickList env) of
        None \<Rightarrow> True
      | Some sel \<Rightarrow> sel \<in> set (quickPickList env))"

text \<open>A text occurs in another one.\<close>

fun occurs :: "string \<Rightarrow> string \<Rightarrow> bool" where
  "occurs sep [] = (sep = [])"
| "occurs sep (c # cs) = (take (length sep) (c # cs) = sep \<or> occurs sep cs)"

text \<open>The separator occurs neither inside a text nor across its end when the
  separator follows it.\<close>

definition sep_free :: "string \<Rightarrow> bool" where
  "sep_free s = (\<not> occurs '' - '' (s @ '' -''))"

text \<open>The editor command that corresponds to a selected item: the command of the first
  fixed entry equal to it, and for any other item \<open>sfdx.force.config.set\<close> on the text
  before the first separator.\<close>

definition fixed_commands :: "string list" where
  "fixed_commands =
     [''sfdx.force.auth.web.login'', ''sfdx.force.auth.dev.hub'', ''sfdx.force.org.create'',
      ''sfdx.force.auth.accessToken'', ''sfdx.force.org.list.clean'']"

definition corresponding_command :: "'x host_env_scheme \<Rightarrow> string \<Rightarrow> 'd ui_event" where
  "corresponding_command env sel =
     (case map_of (zip (fixed_entries env) fixed_commands) sel of
        Some c \<Rightarrow> executeCommand c []
      | None \<Rightarrow> executeCommand ''sfdx.force.config.set'' [Arg_strings [before_first '' - '' sel]])"

section \<open>Example inputs\<close>

text \<open>A message bundle that prints the key followed by the values, and simple path
  functions on \<open>/\<close>-separated paths.\<close>

definition example_localize :: "string \<Rightarrow> string option list \<Rightarrow> string" where
  "example_localize key values = key @ concat (map (\<lambda>v. '' '' @ template_string v) values)"

definition example_join :: "string \<Rightarrow> string \<Rightarrow> string" where
  "example_join a b = a @ ''/'' @ b"

definition example_basename :: "string \<Rightarrow> string" where
  "example_basename p = rev (takeWhile (\<lambda>c. c \<noteq> CHR ''/'') (rev p))"

definition example_host :: host_env where
  "example_host =
     \<lparr>localize = example_localize, hasRootWorkspace = True,
      path_join = example_join, path_basename = example_basename\<rparr>"

text \<open>A workspace whose local file sets \<open>target-org\<close> (and holds \<open>null\<close> for
  \<open>disabled\<close>), with a global configuration that sets \<open>target-dev-hub\<close> and
  throws for \<open>unknown\<close>.\<close>

definition example_config_env :: "string config_env" where
  "example_config_env =
     \<lparr>localize = example_localize, hasRootWorkspace = True,
      path_join = example_join, path_basename = example_basename,
      getRootWorkspacePath = Inr ''/ws'',
      SF_STATE_FOLDER = ''.sf'',
      SF_CONFIG_FILE = ''config.json'',
      ConfigFile_create = (\<lambda>opts.
        if rootFolder opts = ''/ws/.sf'' \<and> filename opts = ''config.json''
        then Inr (\<lambda>k. Inr (if k = ''target-org'' then Some (Value ''me@example.com'')
                            else if k = ''disabled'' then Some Null else None))
        else Inl (new_Error ''no such file'')),
      ConfigAggregator_create =
        Inr (\<lambda>k. if k = ''unknown'' then Inl (new_Error ''Unknown config key'')
                  else Inr (if k = ''target-dev-hub'' then Some (Value ''hub@example.com'')
                            else None))\<rparr>"

text \<open>A CLI that answers \<open>ok\<close> with a diff result, \<open>err\<close> with an error response
  and anything else with text the parser rejects; the awaited diff command rejects for
  the remote file \<open>/cache/locked/A.cls\<close>.\<close>

definition example_success :: DiffSuccessResponse where
  "example_success =
     \<lparr>success_status = 0,
      success_result = \<lparr>dr_remote = ''/tmp/remote/A.cls'', dr_local = ''/ws/classes/A.cls'',
                        dr_fileName = ''A.cls''\<rparr>\<rparr>"

definition example_error :: DiffErrorResponse where
  "example_error = \<lparr>error_name = ''SourceDiffError'', error_message = ''No org configured''\<rparr>"

definition example_diff_env :: "(string \<times> string) diff_env" where
  "example_diff_env =
     \<lparr>localize = example_localize, hasRootWorkspace = True,
      path_join = example_join, path_basename = example_basename,
      new_DiffResultParser = (\<lambda>out.
        if out = ''ok'' then Parser (Some example_success) None
        else if out = ''err'' then Parser None (Some example_error)
        else Parser_throws \<lparr>err_name = ''DiffResultParserFail'',
                             err_message = ''Error parsing diff result''\<rparr>),
      getDefaultUsernameOrAlias = (\<lambda>w. Inr (Some ''dev'')),
      executeCommand_rejects = (\<lambda>c args.
        if take 1 args = [Uri_file ''/cache/locked/A.cls''] then Some (new_Error ''locked'')
        else None),
      differ_diff = (\<lambda>l r. (l, r))\<rparr>"

text \<open>The same CLI in a workspace where the lookup of the default username fails.\<close>

definition example_diff_env_rejecting :: "(string \<times> string) diff_env" where
  "example_diff_env_rejecting =
     example_diff_env
       \<lparr>getDefaultUsernameOrAlias := (\<lambda>w. Inl (new_Error ''No authorization found''))\<rparr>"

definition example_component :: SourceComponent where
  "example_component =
     \<lparr>walkContent = [''/cache/classes/A.cls-meta.xml'', ''/cache/classes/A.cls'']\<rparr>"

definition example_cache :: "bool \<Rightarrow> MetadataCacheResult" where
  "example_cache dir =
     \<lparr>selectedPath = (if dir then ''/ws/classes'' else ''/ws/classes/A.cls''),
      selectedIsDirectory = dir,
      cachePropPath = Some ''/cache/prop.json'',
      cache = \<lparr>baseDirectory = ''/cache'', commonRoot = ''classes'',
               components = Some [example_component]\<rparr>,
      project = \<lparr>baseDirectory = ''/ws'', commonRoot = ''classes'', components = Some []\<rparr>\<rparr>"

text \<open>
  Authorizations: an org with an alias; a scratch org of another Dev Hub; an expired
  scratch org of the default Dev Hub, without aliases; an org with a scratch admin user;
  an org whose \<open>devHubUsername\<close> is the empty string; an org whose alias contains
  the separator.
\<close>

definition org_dev :: OrgAuthorization where
  "org_dev = \<lparr>auth_username = ''dev@example.com'', auth_aliases = Some [''dev'']\<rparr>"

definition org_foreign :: OrgAuthorization where
  "org_foreign = \<lparr>auth_username = ''foreign@example.com'', auth_aliases = None\<rparr>"

definition org_old :: OrgAuthorization where
  "org_old = \<lparr>auth_username = ''old@example.com'', auth_aliases = Some []\<rparr>"

definition org_admin :: OrgAuthorization where
  "org_admin = \<lparr>auth_username = ''admin@example.com'', auth_aliases = Some [''adm'', ''root'']\<rparr>"

definition org_emptyhub :: OrgAuthorization where
  "org_emptyhub = \<lparr>auth_username = ''emptyhub@example.com'', auth_aliases = None\<rparr>"

definition org_dashed :: OrgAuthorization where
  "org_dashed = \<lparr>auth_username = ''dashed@example.com'', auth_aliases = Some [''a - b'']\<rparr>"

definition example_fields :: "string \<Rightarrow> AuthFields" where
  "example_fields u =
     (if u = ''foreign@example.com'' then
        \<lparr>scratchAdminUsername = None, devHubUsername = Some ''other@example.com'',
         expirationDate = Some ''2999-01-01''\<rparr>
      else if u = ''old@example.com'' then
        \<lparr>scratchAdminUsername = None, devHubUsername = Some ''hub@example.com'',
         expirationDate = Some ''2020-01-01''\<rparr>
      else if u = ''admin@example.com'' then
        \<lparr>scratchAdminUsername = Some ''owner@example.com'', devHubUsername = None,
         expirationDate = None\<rparr>
      else if u = ''emptyhub@example.com'' then
        \<lparr>scratchAdminUsername = None, devHubUsername = Some [], expirationDate = None\<rparr>
      else \<lparr>scratchAdminUsername = None, devHubUsername = None, expirationDate = None\<rparr>)"

text \<open>An org picker for a list of authorizations and a user who answers the
  quick-pick with \<open>pick\<close>; the default Dev Hub is the alias \<open>hub\<close> of
  \<open>hub@example.com\<close>.\<close>

definition example_org_env ::
  "OrgAuthorization list \<Rightarrow> (string list \<Rightarrow> string option) \<Rightarrow> org_env"
where
  "example_org_env auths pick =
     \<lparr>localize = example_localize, hasRootWorkspace = True,
      path_join = example_join, path_basename = example_basename,
      getDefaultDevHubUsernameOrAlias = (\<lambda>w. Some ''hub''),
      getUsername = (\<lambda>a. if a = ''hub'' then ''hub@example.com'' else a),
      listAllAuthorizations = Inr auths,
      AuthInfo_getFields = example_fields,
      today = 1800000000000,
      new_Date = (\<lambda>d. if d = ''2020-01-01'' then Some 1577836800000
                       else if d = ''2999-01-01'' then Some 32472144000000 else None),
      showQuickPick = pick\<rparr>"

section \<open>Theorems\<close>

subsection \<open>Function name verification\<close>

text \<open>
  C9. \<open>nameVerification\<close> returns the empty string exactly for the inputs of length at
  most 47 that start with a lowercase letter and consist only of lowercase letters and
  digits. Every other input, the empty string included, throws: the length error when
  the input is longer than 47, otherwise the character-set error when the input is empty
  or holds a character outside \<open>[a-z0-9]\<close>, otherwise the must-start-with-a-letter
  error.
\<close>

theorem nameVerification_cases:
  "(nameVerification v = Inr '''' \<longleftrightarrow>
      length v \<le> 47 \<and> v \<noteq> [] \<and> is_lower (hd v) \<and> list_all (\<lambda>c. is_lower c \<or> is_digit c) v)
   \<and> (\<forall>r. nameVerification v = Inr r \<longrightarrow> r = '''')
   \<and> (nameVerification v \<noteq> Inr '''' \<longrightarrow> (\<exists>e. nameVerification v = Inl e))
   \<and> (nameVerification [] = Inl (new_Error ''Name must contain only lowercase letters and numbers.''))
   \<and> (length v > 47 \<longrightarrow>
        nameVerification v = Inl (new_Error ''Function names cannot contain more than 47 characters.''))
   \<and> (length v \<le> 47 \<and> \<not> (v \<noteq> [] \<and> list_all (\<lambda>c. is_lower c \<or> is_digit c) v) \<longrightarrow>
        nameVerification v = Inl (new_Error ''Name must contain only lowercase letters and numbers.''))
   \<and> (length v \<le> 47 \<and> v \<noteq> [] \<and> list_all (\<lambda>c. is_lower c \<or> is_digit c) v \<and> \<not> is_lower (hd v) \<longrightarrow>
        nameVerification v = Inl (new_Error ''Name must start with a letter.''))"
  by (cases v) (auto simp: nameVerification_def functionNameRegex_def functionNameStartRegex_def)

theorem nameVerification_cases_witness:
  "nameVerification [0x61, 0x31] = Inr ''''
   \<and> nameVerification [0x31, 0x61] = Inl (new_Error ''Name must start with a letter.'')
   \<and> nameVerification [0x61, 0x41] =
       Inl (new_Error ''Name must contain only lowercase letters and numbers.'')
   \<and> nameVerification (replicate 48 0x41) =
       Inl (new_Error ''Function names cannot contain more than 47 characters.'')"
  using nameVerification_cases [of "[0x61, 0x31]"] nameVerification_cases [of "[0x31, 0x61]"]
    nameVerification_cases [of "[0x61, 0x41]"] nameVerification_cases [of "replicate 48 0x41"]
  by (simp add: is_lower_def is_digit_def)

subsection \<open>Source diff\<close>

text \<open>
  C1 (as it holds). \<open>handleDiffResponse\<close> by cases. With exit code 127 it shows the
  localized command-not-found message as an error notification, appends it to the output
  channel, shows the channel (and reports the exception to telemetry), and opens no diff
  view. With another exit code, when the parser yields a success response it opens the
  diff view on the remote and the local file path of that result, provided the lookup of
  the default username or alias (made when there is a root workspace) does not fail; when
  that lookup fails, the error is shown, appended to the channel and reported like the
  one of exit code 127, and no diff view is opened. When the parser yields no success
  response but an error response, it appends the message of that error to the channel,
  shows the channel and opens no diff view.
\<close>

theorem handleDiffResponse_cases:
  "handleDiffResponse env (Some 127) stdOut =
      [showErrorMessage (localize env ''force_source_diff_command_not_found'' []),
       appendLine (localize env ''force_source_diff_command_not_found'' []),
       showChannelOutput,
       sendException ''Error'' (localize env ''force_source_diff_command_not_found'' [])]
   \<and> \<not> list_ex opens_diff_view (handleDiffResponse env (Some 127) stdOut)
   \<and> (exitCode \<noteq> Some 127 \<and> new_DiffResultParser env stdOut = Parser (Some success) anyError
        \<and> default_username_lookup env = Inr defaultUsernameorAlias \<longrightarrow>
        handleDiffResponse env exitCode stdOut =
          [executeCommand ''vscode.diff''
             [Uri_file (dr_remote (success_result success)),
              Uri_file (dr_local (success_result success)),
              Arg_string (localize env ''force_source_diff_title''
                [defaultUsernameorAlias,
                 Some (dr_fileName (success_result success)),
                 Some (dr_fileName (success_result success))])]])
   \<and> (exitCode \<noteq> Some 127 \<and> new_DiffResultParser env stdOut = Parser (Some success) anyError
        \<and> default_username_lookup env = Inl e \<longrightarrow>
        handleDiffResponse env exitCode stdOut =
          [showErrorMessage (err_message e), appendLine (err_message e), showChannelOutput,
           sendException (err_name e) (err_message e)]
        \<and> \<not> list_ex opens_diff_view (handleDiffResponse env exitCode stdOut))
   \<and> (exitCode \<noteq> Some 127 \<and> new_DiffResultParser env stdOut = Parser None (Some err) \<longrightarrow>
        handleDiffResponse env exitCode stdOut = [appendLine (error_message err), showChannelOutput]
        \<and> \<not> list_ex opens_diff_view (handleDiffResponse env exitCode stdOut))"
  by (simp add: handleDiffResponse_def handleDiffResponse_catch_def new_Error_def
      default_username_lookup_def opens_diff_view_def Let_def)

theorem handleDiffResponse_cases_witness:
  "handleDiffResponse example_diff_env (Some 0) ''ok'' =
     [executeCommand ''vscode.diff''
        [Uri_file ''/tmp/remote/A.cls'', Uri_file ''/ws/classes/A.cls'',
         Arg_string ''force_source_diff_title dev A.cls A.cls'']]
   \<and> handleDiffResponse example_diff_env_rejecting (Some 0) ''ok'' =
       [showErrorMessage ''No authorization found'', appendLine ''No authorization found'',
        showChannelOutput, sendException ''Error'' ''No authorization found'']
   \<and> handleDiffResponse example_diff_env (Some 1) ''err'' =
       [appendLine ''No org configured'', showChannelOutput]
   \<and> handleDiffResponse example_diff_env (Some 127) ''ok'' =
       [showErrorMessage ''force_source_diff_command_not_found'',
        appendLine ''force_source_diff_command_not_found'',
        showChannelOutput,
        sendException ''Error'' ''force_source_diff_command_not_found'']"
  using handleDiffResponse_cases
      [where env = example_diff_env and exitCode = "Some 0" and stdOut = "''ok''"
         and success = example_success and anyError = None
         and defaultUsernameorAlias = "Some ''dev''"]
    handleDiffResponse_cases
      [where env = example_diff_env_rejecting and exitCode = "Some 0" and stdOut = "''ok''"
         and success = example_success and anyError = None
         and e = "new_Error ''No authorization found''"]
    handleDiffResponse_cases
      [where env = example_diff_env and exitCode = "Some 1" and stdOut = "''err''"
         and err = example_error]
  by (simp add: example_diff_env_rejecting_def example_diff_env_def example_success_def
      example_error_def example_localize_def template_string_def default_username_lookup_def
      new_Error_def)

text \<open>A success response does not always open the diff view: when the lookup of the
  default username fails, the parser has yielded a success response, and the code shows
  the error and opens no diff view.\<close>

theorem handleDiffResponse_lookup_fails_counterexample:
  "new_DiffResultParser example_diff_env_rejecting ''ok'' = Parser (Some example_success) None
   \<and> handleDiffResponse example_diff_env_rejecting (Some 0) ''ok'' =
       [showErrorMessage ''No authorization found'', appendLine ''No authorization found'',
        showChannelOutput, sendException ''Error'' ''No authorization found'']
   \<and> \<not> list_ex opens_diff_view (handleDiffResponse example_diff_env_rejecting (Some 0) ''ok'')"
  by (simp add: handleDiffResponse_def handleDiffResponse_catch_def new_Error_def
      example_diff_env_rejecting_def example_diff_env_def opens_diff_view_def Let_def)

text \<open>
  C2. For every file path, \<open>ForceSourceDiffExecutor.build\<close> returns the command with
  the one argument \<open>force:source:diff\<close>, the flag \<open>--sourcepath\<close> carrying exactly
  that file path, and the request for JSON output (with the log name
  \<open>force_source_diff\<close> and the localized description).
\<close>

theorem build_command:
  "cmd_args (build env filePath) = [Arg ''force:source:diff'', Flag ''--sourcepath'' filePath, Json]
   \<and> plain_args (cmd_args (build env filePath)) = [''force:source:diff'']
   \<and> flag_values ''--sourcepath'' (cmd_args (build env filePath)) = [filePath]
   \<and> requests_json (cmd_args (build env filePath))
   \<and> cmd_logName (build env filePath) = Some ''force_source_diff''
   \<and> cmd_description (build env filePath) = Some (localize env ''force_source_diff_text'' [])"
  by (simp add: build_def CommandBuilder_build_def withJson_def withFlag_def withLogName_def
      withArg_def withDescription_def SfdxCommandBuilder_new_def requests_json_def)

theorem build_command_witness:
  "build example_host ''/ws/classes/A.cls'' =
     \<lparr>cmd_description = Some ''force_source_diff_text'',
      cmd_logName = Some ''force_source_diff'',
      cmd_args = [Arg ''force:source:diff'', Flag ''--sourcepath'' ''/ws/classes/A.cls'', Json]\<rparr>"
  using build_command [of example_host "''/ws/classes/A.cls''"]
  by (cases "build example_host ''/ws/classes/A.cls''")
     (simp add: example_host_def example_localize_def)

text \<open>The loop of \<open>diffOneFile\<close> finds the first content path that ends with the
  file part.\<close>

lemma diffOneFile_loop_find:
  "diffOneFile_loop env localFile filePart paths =
     (case find (\<lambda>p. endsWith p filePart) paths of
        None \<Rightarrow> []
      | Some p \<Rightarrow>
          executeCommand ''vscode.diff''
            [Uri_file p, Uri_file localFile, Arg_string ''Source File Diff ( Local File / Org File )''] #
          (case executeCommand_rejects env ''vscode.diff''
                  [Uri_file p, Uri_file localFile,
                   Arg_string ''Source File Diff ( Local File / Org File )''] of
             None \<Rightarrow> []
           | Some e \<Rightarrow> [console_log (''ERROR: '' @ Error_toString e)]))"
  by (induction paths) (simp_all add: Let_def)

text \<open>
  C6. \<open>handleCacheResults\<close> dispatches on the selection. For a directory it calls the
  directory differ on the local path (the project's base directory joined with its
  common root) and the remote path (the cache's base directory joined with its common
  root) and passes the diffs to the conflict view. For a single file, when the cache has
  components, it runs \<open>diffOneFile\<close> on the selected path and the first component,
  that is, it opens the diff view on the first content path of that component that ends
  with the file's base name. Without a cache result it shows the error notification that
  the selected components are not available in the org.
\<close>

theorem handleCacheResults_dispatch:
  "(selectedIsDirectory c \<longrightarrow>
      handleCacheResults env (Some c) =
        ([console_log (''PROF-FILE: '' @ template_string (cachePropPath c)),
          visualizeDifferences ''PDTDevHub2 - File Diffs'' ''PDTDevHub2'' True
            (differ_diff env
               (path_join env (baseDirectory (project c)) (commonRoot (project c)))
               (path_join env (baseDirectory (cache c)) (commonRoot (cache c))))],
         Resolved))
   \<and> (\<not> selectedIsDirectory c \<and> components (cache c) = Some (first # others) \<longrightarrow>
        handleCacheResults env (Some c) =
          (console_log (''PROF-FILE: '' @ template_string (cachePropPath c)) #
           diffOneFile env (selectedPath c) first, Resolved))
   \<and> diffOneFile env localFile component =
        (case find (\<lambda>p. endsWith p (path_basename env localFile)) (walkContent component) of
           None \<Rightarrow> []
         | Some p \<Rightarrow>
             executeCommand ''vscode.diff''
               [Uri_file p, Uri_file localFile,
                Arg_string ''Source File Diff ( Local File / Org File )''] #
             (case executeCommand_rejects env ''vscode.diff''
                     [Uri_file p, Uri_file localFile,
                      Arg_string ''Source File Diff ( Local File / Org File )''] of
                None \<Rightarrow> []
              | Some e \<Rightarrow> [console_log (''ERROR: '' @ Error_toString e)]))
   \<and> handleCacheResults env None =
        ([showErrorMessage ''Selected components are not available in the org''], Resolved)"
  by (simp add: handleCacheResults_def diffOneFile_def diffOneFile_loop_find Let_def)

theorem handleCacheResults_dispatch_witness:
  "handleCacheResults example_diff_env (Some (example_cache True)) =
     ([console_log ''PROF-FILE: /cache/prop.json'',
       visualizeDifferences ''PDTDevHub2 - File Diffs'' ''PDTDevHub2'' True
         (''/ws/classes'', ''/cache/classes'')], Resolved)
   \<and> handleCacheResults example_diff_env (Some (example_cache False)) =
     ([console_log ''PROF-FILE: /cache/prop.json'',
       executeCommand ''vscode.diff''
         [Uri_file ''/cache/classes/A.cls'', Uri_file ''/ws/classes/A.cls'',
          Arg_string ''Source File Diff ( Local File / Org File )'']], Resolved)"
  using handleCacheResults_dispatch
      [where env = example_diff_env and c = "example_cache True"]
    handleCacheResults_dispatch
      [where env = example_diff_env and c = "example_cache False" and first = example_component
         and others = "[]" and localFile = "''/ws/classes/A.cls''"
         and component = example_component]
  by (simp add: example_diff_env_def example_cache_def example_component_def
      example_join_def example_basename_def template_string_def endsWith_def)

subsection \<open>Configuration lookup\<close>

text \<open>With an explicit source, \<open>getSfConfigValue\<close> returns the value of that one lookup
  when it is neither \<open>null\<close> nor \<open>undefined\<close>, and \<open>undefined\<close> otherwise.\<close>

lemma getSfConfigValue_Local:
  "fst (getSfConfigValue env key (Some ConfigSource_Local)) =
     (case local_lookup env key of Inr (Some (Value v)) \<Rightarrow> Some (Value v) | _ \<Rightarrow> None)"
  by (auto simp: getSfConfigValue_def local_lookup_def isUndefined_def isNullOrUndefined_def Let_def
      split: sum.splits option.splits ConfigValue.splits)

lemma getSfConfigValue_Global:
  "fst (getSfConfigValue env key (Some ConfigSource_Global)) =
     (case global_lookup env key of Inr (Some (Value v)) \<Rightarrow> Some (Value v) | _ \<Rightarrow> None)"
  by (auto simp: getSfConfigValue_def global_lookup_def isUndefined_def isNullOrUndefined_def Let_def
      split: sum.splits option.splits ConfigValue.splits)

text \<open>
  C3. For every key, \<open>getConfigSource\<close> returns \<open>Local\<close> exactly when the local
  workspace lookup yields a value that is neither \<open>null\<close> nor \<open>undefined\<close>;
  otherwise it returns \<open>Global\<close> exactly when the global aggregator yields such a
  value; and it returns \<open>None\<close> when neither does.
\<close>

theorem getConfigSource_precedence:
  "(fst (getConfigSource env key) = ConfigSource_Local \<longleftrightarrow> yields_value (local_lookup env key))
   \<and> (\<not> yields_value (local_lookup env key) \<longrightarrow>
        (fst (getConfigSource env key) = ConfigSource_Global
           \<longleftrightarrow> yields_value (global_lookup env key)))
   \<and> (\<not> yields_value (local_lookup env key) \<and> \<not> yields_value (global_lookup env key) \<longrightarrow>
        fst (getConfigSource env key) = ConfigSource_None)"
  using getSfConfigValue_Local [of env key] getSfConfigValue_Global [of env key]
  by (auto simp: getConfigSource_def yields_value_def isNullOrUndefined_def Let_def
      split: prod.splits sum.splits option.splits ConfigValue.splits)

theorem getConfigSource_precedence_witness:
  "fst (getConfigSource example_config_env ''target-org'') = ConfigSource_Local
   \<and> fst (getConfigSource example_config_env ''target-dev-hub'') = ConfigSource_Global
   \<and> fst (getConfigSource example_config_env ''disabled'') = ConfigSource_None
   \<and> fst (getConfigSource example_config_env ''unknown'') = ConfigSource_None"
  using getConfigSource_precedence [of example_config_env "''target-org''"]
    getConfigSource_precedence [of example_config_env "''target-dev-hub''"]
    getConfigSource_precedence [of example_config_env "''disabled''"]
    getConfigSource_precedence [of example_config_env "''unknown''"]
  by (simp add: yields_value_def local_lookup_def global_lookup_def example_config_env_def
      example_join_def)

text \<open>
  C8. \<open>getConfigValue\<close> and \<open>getSfConfigValue\<close> are extensionally equal: for every
  key and every source argument (\<open>Local\<close>, \<open>Global\<close> or omitted) they make the same
  library calls in the same order, report the same exceptions and return the same
  result.
\<close>

theorem getConfigValue_eq_getSfConfigValue:
  "getConfigValue env key source = getSfConfigValue env key source"
  unfolding getConfigValue_def getSfConfigValue_def by (rule refl)

theorem getConfigValue_eq_getSfConfigValue_witness:
  "getConfigValue example_config_env ''target-dev-hub'' None =
     (Some (Value ''hub@example.com''),
      [Call_getRootWorkspacePath,
       Call_ConfigFile_create
         \<lparr>isGlobal = False, rootFolder = ''/ws/.sf'', filename = ''config.json''\<rparr>,
       Call_ConfigFile_get ''target-dev-hub'',
       Call_ConfigAggregator_create,
       Call_getPropertyValue ''target-dev-hub''])
   \<and> getConfigValue example_config_env ''unknown'' (Some ConfigSource_Global) =
     (None,
      [Call_ConfigAggregator_create,
       Call_getPropertyValue ''unknown'',
       Telemetry_sendException ''get_config_value_global'' ''Unknown config key''])"
  using getConfigValue_eq_getSfConfigValue [of example_config_env "''target-dev-hub''" None]
    getConfigValue_eq_getSfConfigValue [of example_config_env "''unknown''" "Some ConfigSource_Global"]
  by (simp add: getSfConfigValue_def example_config_env_def example_join_def isUndefined_def
      isNullOrUndefined_def new_Error_def)

subsection \<open>The status bar\<close>

text \<open>
  C5. On every org-change event and at construction the status bar item shows the alias
  when the alias is a non-empty defined string, and otherwise what
  \<open>displayDefaultUsername\<close> shows for the username. \<open>displayDefaultUsername\<close> sets
  the text to \<open>$(plug) \<close> followed by the identifier when one is given, and to the
  localized missing-default-org text when the argument is absent or empty.
\<close>

theorem status_bar_text:
  "(org_alias orgInfo = Some a \<and> a \<noteq> [] \<longrightarrow>
      sb_text (onOrgChange env orgInfo item) = ''$(plug) '' @ a
      \<and> sb_text (OrgList_new env orgInfo) = ''$(plug) '' @ a)
   \<and> (\<not> (\<exists>a. org_alias orgInfo = Some a \<and> a \<noteq> []) \<longrightarrow>
        onOrgChange env orgInfo item = displayDefaultUsername env (org_username orgInfo) item
        \<and> sb_text (OrgList_new env orgInfo) =
            sb_text (displayDefaultUsername env (org_username orgInfo) item))
   \<and> (\<not> (\<exists>a. org_alias orgInfo = Some a \<and> a \<noteq> []) \<and> org_username orgInfo = Some u \<and> u \<noteq> [] \<longrightarrow>
        sb_text (onOrgChange env orgInfo item) = ''$(plug) '' @ u
        \<and> sb_text (OrgList_new env orgInfo) = ''$(plug) '' @ u)
   \<and> (s \<noteq> [] \<longrightarrow> sb_text (displayDefaultUsername env (Some s) item) = ''$(plug) '' @ s)
   \<and> sb_text (displayDefaultUsername env None item) = localize env ''missing_default_org'' []
   \<and> sb_text (displayDefaultUsername env (Some []) item) = localize env ''missing_default_org'' []"
  by (auto simp: onOrgChange_def OrgList_new_def displayDefaultUsername_def js_or_def truthy_def
      Let_def split: option.splits)

theorem status_bar_text_witness:
  "sb_text (onOrgChange example_host \<lparr>org_username = Some ''dev@example.com'', org_alias = Some ''dev''\<rparr>
      (createStatusBarItem Left 49)) = ''$(plug) dev''
   \<and> sb_text (OrgList_new example_host \<lparr>org_username = Some ''dev@example.com'', org_alias = Some []\<rparr>)
       = ''$(plug) dev@example.com''
   \<and> sb_text (OrgList_new example_host \<lparr>org_username = None, org_alias = None\<rparr>)
       = ''missing_default_org''"
  using status_bar_text
      [where env = example_host and item = "createStatusBarItem Left 49" and a = "''dev''"
         and orgInfo = "\<lparr>org_username = Some ''dev@example.com'', org_alias = Some ''dev''\<rparr>"]
    status_bar_text
      [where env = example_host and item = "createStatusBarItem Left 49"
         and u = "''dev@example.com''" and s = "''dev@example.com''"
         and orgInfo = "\<lparr>org_username = Some ''dev@example.com'', org_alias = Some []\<rparr>"]
    status_bar_text
      [where env = example_host and item = "createStatusBarItem Left 49"
         and orgInfo = "\<lparr>org_username = None, org_alias = None\<rparr>"]
  by (simp add: example_host_def example_localize_def)

subsection \<open>The org list\<close>

lemma isExpired_eq:
  "(if truthy (expirationDate f) then
      (case expirationDate f of
         Some d \<Rightarrow> (case new_Date env d of Some t \<Rightarrow> today env \<ge> t | None \<Rightarrow> False)
       | None \<Rightarrow> False)
    else False) =
   (case expirationDate f of
      None \<Rightarrow> False
    | Some d \<Rightarrow> (case new_Date env d of None \<Rightarrow> False | Some t \<Rightarrow> d \<noteq> [] \<and> t \<le> today env))"
  by (cases "expirationDate f") (simp_all add: truthy_def split: option.split)

lemma authListItem_eq:
  "(case auth_aliases a of
      Some as \<Rightarrow>
        (if length as > 0 then Array_toString as @ '' - '' @ auth_username a
         else auth_username a)
    | None \<Rightarrow> auth_username a) =
   (if has_aliases a then aliases_text a @ '' - '' @ auth_username a else auth_username a)"
  by (cases "auth_aliases a") (simp_all add: has_aliases_def aliases_text_def)

lemma excluded_eq:
  "(truthy (scratchAdminUsername (AuthInfo_getFields env (auth_username a)))
    \<or> (truthy (devHubUsername (AuthInfo_getFields env (auth_username a)))
       \<and> devHubUsername (AuthInfo_getFields env (auth_username a)) \<noteq> resolved_devhub env))
   = org_excluded env a"
  by (cases "scratchAdminUsername (AuthInfo_getFields env (auth_username a))";
      cases "devHubUsername (AuthInfo_getFields env (auth_username a))")
     (simp_all add: org_excluded_def truthy_def Let_def)

lemma if_same_disj: "(if A then x else if B then x else y) = (if A \<or> B then x else y)"
  by simp

lemma if_append_right: "(if c then x @ m else x) = x @ (if c then m else [])"
  by simp

lemma filterAuthInfo_loop_Cons:
  "filterAuthInfo_loop env (resolved_devhub env) authList (a # rest) =
     (if org_excluded env a then filterAuthInfo_loop env (resolved_devhub env) authList rest
      else filterAuthInfo_loop env (resolved_devhub env) (authList @ [org_entry env a]) rest)"
proof -
  have entry:
    "(if (case expirationDate (AuthInfo_getFields env (auth_username a)) of
            None \<Rightarrow> False
          | Some d \<Rightarrow>
              (case new_Date env d of None \<Rightarrow> False | Some t \<Rightarrow> d \<noteq> [] \<and> t \<le> today env))
      then (if has_aliases a then aliases_text a @ '' - '' @ auth_username a else auth_username a)
           @ '' - '' @ localize env ''org_expired'' [] @ '' '' @ cross_mark
      else (if has_aliases a then aliases_text a @ '' - '' @ auth_username a else auth_username a))
     = org_entry env a"
    unfolding org_entry_def org_expired_def expired_marker_def by (rule if_append_right)
  show ?thesis
    unfolding filterAuthInfo_loop.simps Let_def isExpired_eq authListItem_eq entry if_same_disj
      excluded_eq
    by (rule refl)
qed

lemma filterAuthInfo_loop_map_filter:
  "filterAuthInfo_loop env (resolved_devhub env) authList xs =
     authList @ map (org_entry env) (filter (\<lambda>a. \<not> org_excluded env a) xs)"
proof (induction xs arbitrary: authList)
  case Nil
  show ?case by simp
next
  case (Cons a xs)
  show ?case
    by (simp only: filterAuthInfo_loop_Cons Cons.IH) simp
qed

lemma filterAuthInfo_map_filter:
  "filterAuthInfo env auths = map (org_entry env) (filter (\<lambda>a. \<not> org_excluded env a) auths)"
proof -
  have "(if truthy (getDefaultDevHubUsernameorAlias env)
         then map_option (getUsername env) (getDefaultDevHubUsernameorAlias env)
         else None) = resolved_devhub env"
    by (simp add: resolved_devhub_def truthy_def split: option.splits)
  then show ?thesis
    by (simp add: filterAuthInfo_def Let_def filterAuthInfo_loop_map_filter)
qed


lemma occurs_append: "sep \<noteq> [] \<Longrightarrow> occurs sep a \<Longrightarrow> occurs sep (a @ b)"
proof (induction a)
  case Nil
  then show ?case by simp
next
  case (Cons c cs)
  show ?case
  proof (cases "take (length sep) (c # cs) = sep")
    case True
    then have "length (take (length sep) (c # cs)) = length sep"
      by (rule arg_cong)
    then have "length sep \<le> length (c # cs)"
      by simp
    then have "take (length sep) ((c # cs) @ b) = take (length sep) (c # cs)"
      by (simp only: take_append) simp
    with True show ?thesis by simp
  next
    case False
    with Cons show ?thesis by simp
  qed
qed

lemma before_first_no_occurrence: "\<not> occurs sep s \<Longrightarrow> before_first sep s = s"
  by (induction s) auto

lemma before_first_append_sep:
  "sep \<noteq> [] \<Longrightarrow> \<not> occurs sep (a @ butlast sep) \<Longrightarrow> before_first sep (a @ sep @ rest) = a"
proof (induction a)
  case Nil
  then show ?case by (cases sep) simp_all
next
  case (Cons c cs)
  have len: "length sep \<le> length ((c # cs) @ butlast sep)"
    using Cons.prems(1) by (cases sep) simp_all
  have "(c # cs) @ sep @ rest = ((c # cs) @ butlast sep) @ (last sep # rest)"
    using Cons.prems(1) by (simp add: append_butlast_last_id [symmetric] del: append_butlast_last_id)
  then have "take (length sep) ((c # cs) @ sep @ rest) = take (length sep) ((c # cs) @ butlast sep)"
    using len by (simp only: take_append) simp
  moreover have "take (length sep) ((c # cs) @ butlast sep) \<noteq> sep"
    using Cons.prems(2) by auto
  moreover have "before_first sep (cs @ sep @ rest) = cs"
    using Cons by auto
  ultimately show ?case by simp
qed

lemma before_first_org_entry:
  assumes "sep_free (org_lead a)"
  shows "before_first '' - '' (org_entry env a) = org_lead a"
proof -
  have nb: "\<not> occurs '' - '' (org_lead a @ butlast '' - '')"
    using assms by (simp add: sep_free_def)
  have no: "\<not> occurs '' - '' (org_lead a)"
    using nb occurs_append [of "'' - ''" "org_lead a" "butlast '' - ''"] by blast
  show ?thesis
  proof (cases "has_aliases a")
    case True
    then have "org_entry env a =
        org_lead a @ '' - '' @ (auth_username a @ (if org_expired env a then expired_marker env else []))"
      by (simp add: org_entry_def org_lead_def)
    then show ?thesis
      using before_first_append_sep [OF _ nb] by simp
  next
    case False
    show ?thesis
    proof (cases "org_expired env a")
      case True
      with False have "org_entry env a =
          org_lead a @ '' - '' @ (localize env ''org_expired'' [] @ '' '' @ cross_mark)"
        by (simp add: org_entry_def org_lead_def expired_marker_def)
      then show ?thesis
        using before_first_append_sep [OF _ nb] by simp
    next
      case nexp: False
      with False have "org_entry env a = org_lead a"
        by (simp add: org_entry_def org_lead_def)
      then show ?thesis
        using before_first_no_occurrence [OF no] by simp
    qed
  qed
qed

lemma setDefaultOrg_selected:
  assumes "showQuickPick env (quickPickList env) = Some sel" and "sel \<noteq> []"
  shows "setDefaultOrg env = (CONTINUE (), [corresponding_command env sel])"
  using assms
  by (simp add: setDefaultOrg_def truthy_def corresponding_command_def fixed_entries_def
      fixed_commands_def split_limit1_def Let_def)

lemma setDefaultOrg_cancel:
  "fst (setDefaultOrg env) = CANCEL \<longleftrightarrow>
     showQuickPick env (quickPickList env) = None \<or> showQuickPick env (quickPickList env) = Some []"
proof (cases "showQuickPick env (quickPickList env)")
  case None
  then show ?thesis by (simp add: setDefaultOrg_def truthy_def)
next
  case (Some sel)
  show ?thesis
  proof (cases "sel = []")
    case True
    with Some show ?thesis by (simp add: setDefaultOrg_def truthy_def)
  next
    case False
    with Some show ?thesis by (simp add: setDefaultOrg_selected)
  qed
qed

lemma corresponding_command_fixed:
  "distinct (fixed_entries env) \<Longrightarrow>
   map (corresponding_command env) (fixed_entries env) =
     [executeCommand ''sfdx.force.auth.web.login'' [],
      executeCommand ''sfdx.force.auth.dev.hub'' [],
      executeCommand ''sfdx.force.org.create'' [],
      executeCommand ''sfdx.force.auth.accessToken'' [],
      executeCommand ''sfdx.force.org.list.clean'' []]"
  by (auto simp: corresponding_command_def fixed_entries_def fixed_commands_def)

lemma corresponding_command_other:
  "sel \<notin> set (fixed_entries env) \<Longrightarrow>
   corresponding_command env sel =
     executeCommand ''sfdx.force.config.set'' [Arg_strings [before_first '' - '' sel]]"
  by (simp add: corresponding_command_def fixed_entries_def fixed_commands_def)

text \<open>
  C10 (as it holds). Every authorization for which \<open>AuthInfo\<close> reports a non-empty
  \<open>scratchAdminUsername\<close>, or whose \<open>devHubUsername\<close> is non-empty and differs
  from the resolved default Dev Hub username, is left out of the list
  \<open>filterAuthInfo\<close> returns; every other authorization produces exactly one entry,
  in the order of the input.
\<close>

theorem filterAuthInfo_survivors:
  "filterAuthInfo env auths = map (org_entry env) (filter (\<lambda>a. \<not> org_excluded env a) auths)
   \<and> length (filterAuthInfo env auths) = length (filter (\<lambda>a. \<not> org_excluded env a) auths)
   \<and> (org_excluded env a \<longleftrightarrow>
        (\<exists>s. scratchAdminUsername (AuthInfo_getFields env (auth_username a)) = Some s \<and> s \<noteq> [])
        \<or> (\<exists>d. devHubUsername (AuthInfo_getFields env (auth_username a)) = Some d \<and> d \<noteq> []
                \<and> Some d \<noteq> resolved_devhub env))"
  by (auto simp: filterAuthInfo_map_filter org_excluded_def Let_def split: option.splits)

theorem filterAuthInfo_survivors_witness:
  "filterAuthInfo (example_org_env [] (\<lambda>items. None))
     [org_dev, org_foreign, org_old, org_admin, org_emptyhub] =
     [''dev - dev@example.com'', ''old@example.com - org_expired '' @ cross_mark,
      ''emptyhub@example.com'']
   \<and> org_excluded (example_org_env [] (\<lambda>items. None)) org_foreign
   \<and> org_excluded (example_org_env [] (\<lambda>items. None)) org_admin"
  using filterAuthInfo_survivors
      [of "example_org_env [] (\<lambda>items. None)"
          "[org_dev, org_foreign, org_old, org_admin, org_emptyhub]" org_foreign]
    filterAuthInfo_survivors
      [of "example_org_env [] (\<lambda>items. None)" "[]" org_admin]
  by (simp add: example_org_env_def example_fields_def example_localize_def org_dev_def
      org_foreign_def org_old_def org_admin_def org_emptyhub_def org_excluded_def org_entry_def
      org_expired_def has_aliases_def aliases_text_def expired_marker_def resolved_devhub_def
      getDefaultDevHubUsernameorAlias_def)

text \<open>With "is defined" read as "is not \<open>undefined\<close>" the exclusion does not
  hold: an authorization whose \<open>devHubUsername\<close> is the empty string is defined and
  differs from the default Dev Hub username, and still has its entry.\<close>

theorem filterAuthInfo_defined_counterexample:
  "org_excluded_if_defined (example_org_env [] (\<lambda>items. None)) org_emptyhub
   \<and> filterAuthInfo (example_org_env [] (\<lambda>items. None)) [org_emptyhub] =
       [''emptyhub@example.com'']"
  by (simp add: filterAuthInfo_def org_excluded_if_defined_def
      example_org_env_def example_fields_def org_emptyhub_def resolved_devhub_def
      getDefaultDevHubUsernameorAlias_def truthy_def Let_def)

text \<open>Every item of the quick-pick is a non-empty text when the usernames are.\<close>

lemma org_entry_nonempty: "auth_username a \<noteq> [] \<Longrightarrow> org_entry env a \<noteq> []"
  by (simp add: org_entry_def)

lemma quickPickList_nonempty_items:
  assumes "usernames_nonempty env"
  shows "[] \<notin> set (quickPickList env)"
proof -
  have fixed: "[] \<notin> set (fixed_entries env)"
    by (simp add: fixed_entries_def)
  show ?thesis
  proof (cases "listAllAuthorizations env")
    case (Inl err)
    with fixed show ?thesis
      by (simp add: quickPickList_def updateOrgList_def getOrgAuthorizations_def)
  next
    case (Inr auths)
    with assms have names: "\<forall>a \<in> set auths. auth_username a \<noteq> []"
      by (simp add: usernames_nonempty_def list_all_iff)
    have "[] \<notin> set (filterAuthInfo env auths)"
    proof
      assume "[] \<in> set (filterAuthInfo env auths)"
      then obtain a where "a \<in> set auths" and "org_entry env a = []"
        by (auto simp: filterAuthInfo_map_filter)
      with names org_entry_nonempty [of a env] show False
        by blast
    qed
    with fixed Inr show ?thesis
      by (simp add: quickPickList_def updateOrgList_def getOrgAuthorizations_def)
  qed
qed

text \<open>
  C4. \<open>setDefaultOrg\<close>, for authorizations with non-empty usernames and a quick-pick
  that answers with one of the items shown or with nothing: the response has type
  \<open>CANCEL\<close> exactly when the quick-pick is dismissed with no selection, and then no
  command is dispatched; for every selected item the corresponding editor command, and
  only that one, is dispatched and the response has type \<open>CONTINUE\<close> with empty data.
  The five fixed entries (their labels being different) correspond to their five
  commands, and an item that is none of them, an org entry, to
  \<open>sfdx.force.config.set\<close> on the text before its first separator.
\<close>

theorem setDefaultOrg_response:
  assumes "usernames_nonempty env" and "picks_shown_item env"
  shows
  "(fst (setDefaultOrg env :: unit response \<times> 'd ui_event list) = CANCEL \<longleftrightarrow>
      showQuickPick env (quickPickList env) = None)
   \<and> (showQuickPick env (quickPickList env) = None \<longrightarrow>
        (setDefaultOrg env :: unit response \<times> 'd ui_event list) = (CANCEL, []))
   \<and> (showQuickPick env (quickPickList env) = Some sel \<longrightarrow>
        setDefaultOrg env = (CONTINUE (), [corresponding_command env sel :: 'd ui_event]))
   \<and> (distinct (fixed_entries env) \<longrightarrow>
        map (corresponding_command env) (fixed_entries env) =
          [executeCommand ''sfdx.force.auth.web.login'' [] :: 'd ui_event,
           executeCommand ''sfdx.force.auth.dev.hub'' [],
           executeCommand ''sfdx.force.org.create'' [],
           executeCommand ''sfdx.force.auth.accessToken'' [],
           executeCommand ''sfdx.force.org.list.clean'' []])
   \<and> (sel \<notin> set (fixed_entries env) \<longrightarrow>
        (corresponding_command env sel :: 'd ui_event) =
          executeCommand ''sfdx.force.config.set'' [Arg_strings [before_first '' - '' sel]])"
proof -
  have not_empty: "showQuickPick env (quickPickList env) \<noteq> Some []"
    using assms(2) quickPickList_nonempty_items [OF assms(1)]
    by (auto simp: picks_shown_item_def)
  have cancel: "fst (setDefaultOrg env :: unit response \<times> 'd ui_event list) = CANCEL \<longleftrightarrow>
      showQuickPick env (quickPickList env) = None"
    using setDefaultOrg_cancel [of env] not_empty by simp
  have dismissed: "showQuickPick env (quickPickList env) = None \<longrightarrow>
        (setDefaultOrg env :: unit response \<times> 'd ui_event list) = (CANCEL, [])"
    by (simp add: setDefaultOrg_def truthy_def)
  have selected: "showQuickPick env (quickPickList env) = Some sel \<longrightarrow>
        setDefaultOrg env = (CONTINUE (), [corresponding_command env sel :: 'd ui_event])"
    using setDefaultOrg_selected [of env sel] not_empty by auto
  show ?thesis
    using cancel dismissed selected
      corresponding_command_fixed [of env] corresponding_command_other [of sel env]
    by blast
qed

theorem setDefaultOrg_response_witness:
  "usernames_nonempty (example_org_env [org_dev] (\<lambda>items. None))
   \<and> picks_shown_item (example_org_env [org_dev] (\<lambda>items. None))
   \<and> picks_shown_item (example_org_env [org_dev] (\<lambda>items. Some (hd (tl items))))
   \<and> picks_shown_item (example_org_env [org_dev] (\<lambda>items. Some (last items)))
   \<and> (setDefaultOrg (example_org_env [org_dev] (\<lambda>items. None))
      :: unit response \<times> unit ui_event list) = (CANCEL, [])
   \<and> (setDefaultOrg (example_org_env [org_dev] (\<lambda>items. Some (hd (tl items))))
      :: unit response \<times> unit ui_event list) =
       (CONTINUE (), [executeCommand ''sfdx.force.auth.dev.hub'' []])
   \<and> (setDefaultOrg (example_org_env [org_dev] (\<lambda>items. Some (last items)))
      :: unit response \<times> unit ui_event list) =
       (CONTINUE (), [executeCommand ''sfdx.force.config.set'' [Arg_strings [''dev'']]])
   \<and> map (corresponding_command (example_org_env [org_dev] (\<lambda>items. None)))
        (fixed_entries (example_org_env [org_dev] (\<lambda>items. None))) =
       [executeCommand ''sfdx.force.auth.web.login'' [] :: unit ui_event,
        executeCommand ''sfdx.force.auth.dev.hub'' [],
        executeCommand ''sfdx.force.org.create'' [],
        executeCommand ''sfdx.force.auth.accessToken'' [],
        executeCommand ''sfdx.force.org.list.clean'' []]"
proof -
  have items: "quickPickList (example_org_env [org_dev] pick) =
      [''$(plus) force_auth_web_login_authorize_org_text'',
       ''$(plus) force_auth_web_login_authorize_dev_hub_text'',
       ''$(plus) force_org_create_default_scratch_org_text'',
       ''$(plus) force_auth_access_token_authorize_org_text'',
       ''$(plus) force_org_list_clean_text'',
       ''dev - dev@example.com'']" for pick
    by (simp add: quickPickList_def updateOrgList_def getOrgAuthorizations_def
        filterAuthInfo_map_filter fixed_entries_def example_org_env_def example_fields_def
        example_localize_def org_dev_def org_excluded_def org_entry_def org_expired_def
        has_aliases_def aliases_text_def)
  have u: "usernames_nonempty (example_org_env [org_dev] pick)" for pick
    by (simp add: usernames_nonempty_def example_org_env_def org_dev_def)
  have p0: "picks_shown_item (example_org_env [org_dev] (\<lambda>items. None))"
    by (simp add: picks_shown_item_def example_org_env_def)
  have p1: "picks_shown_item (example_org_env [org_dev] (\<lambda>items. Some (hd (tl items))))"
    unfolding picks_shown_item_def items by (simp add: example_org_env_def)
  have p2: "picks_shown_item (example_org_env [org_dev] (\<lambda>items. Some (last items)))"
    unfolding picks_shown_item_def items by (simp add: example_org_env_def)
  have s0: "showQuickPick (example_org_env [org_dev] (\<lambda>items. None))
      (quickPickList (example_org_env [org_dev] (\<lambda>items. None))) = None"
    by (simp add: example_org_env_def)
  have s1: "showQuickPick (example_org_env [org_dev] (\<lambda>items. Some (hd (tl items))))
      (quickPickList (example_org_env [org_dev] (\<lambda>items. Some (hd (tl items))))) =
      Some ''$(plus) force_auth_web_login_authorize_dev_hub_text''"
    unfolding items by (simp add: example_org_env_def)
  have s2: "showQuickPick (example_org_env [org_dev] (\<lambda>items. Some (last items)))
      (quickPickList (example_org_env [org_dev] (\<lambda>items. Some (last items)))) =
      Some ''dev - dev@example.com''"
    unfolding items by (simp add: example_org_env_def)
  have f: "fixed_entries (example_org_env [org_dev] pick) =
      [''$(plus) force_auth_web_login_authorize_org_text'',
       ''$(plus) force_auth_web_login_authorize_dev_hub_text'',
       ''$(plus) force_org_create_default_scratch_org_text'',
       ''$(plus) force_auth_access_token_authorize_org_text'',
       ''$(plus) force_org_list_clean_text'']" for pick
    by (simp add: fixed_entries_def example_org_env_def example_localize_def)
  show ?thesis
    using u p0 p1 p2
      setDefaultOrg_response [where 'd = unit, OF u p0]
      setDefaultOrg_response [where 'd = unit, OF u p1,
        of "''$(plus) force_auth_web_login_authorize_dev_hub_text''"]
      setDefaultOrg_response [where 'd = unit, OF u p2, of "''dev - dev@example.com''"]
    by (simp add: s0 s1 s2 f corresponding_command_def fixed_commands_def)
qed

text \<open>When the separator occurs neither inside the alias text (the username, when
  there are no aliases) nor across its end, the text before the first separator of the
  entry is the alias text when aliases are present and the username otherwise; a chosen
  entry that is not empty and none of the fixed entries passes it to
  \<open>sfdx.force.config.set\<close>.\<close>

lemma org_entry_recovered:
  "(\<forall>e \<in> set (filterAuthInfo env auths). \<exists>a \<in> set auths. e = org_entry env a)
   \<and> (sep_free (org_lead a) \<longrightarrow> before_first '' - '' (org_entry env a) = org_lead a)
   \<and> (showQuickPick env (quickPickList env) = Some (org_entry env a)
        \<and> org_entry env a \<noteq> [] \<and> org_entry env a \<notin> set (fixed_entries env)
        \<and> sep_free (org_lead a) \<longrightarrow>
        (setDefaultOrg env :: unit response \<times> 'd ui_event list) =
            (CONTINUE (), [executeCommand ''sfdx.force.config.set'' [Arg_strings [org_lead a]]]))"
proof -
  have entries: "\<forall>e \<in> set (filterAuthInfo env auths). \<exists>a \<in> set auths. e = org_entry env a"
    by (auto simp: filterAuthInfo_map_filter)
  have chosen: "(setDefaultOrg env :: unit response \<times> 'd ui_event list) =
            (CONTINUE (), [executeCommand ''sfdx.force.config.set'' [Arg_strings [org_lead a]]])"
    if sel: "showQuickPick env (quickPickList env) = Some (org_entry env a)"
      and ne: "org_entry env a \<noteq> []"
      and nf: "org_entry env a \<notin> set (fixed_entries env)"
      and sf: "sep_free (org_lead a)"
  proof -
    have b: "before_first '' - '' (org_entry env a) = org_lead a"
      using sf by (rule before_first_org_entry)
    have "(setDefaultOrg env :: unit response \<times> 'd ui_event list) =
        (CONTINUE (), [corresponding_command env (org_entry env a)])"
      using sel ne by (rule setDefaultOrg_selected)
    with b corresponding_command_other [OF nf] show ?thesis by simp
  qed
  show ?thesis
    using entries chosen before_first_org_entry [of a env] by blast
qed

text \<open>
  C7. The entry of an org is the username when the org has no aliases and otherwise the
  aliases followed by \<open> - \<close> and the username, and the text before the first
  \<open> - \<close> of a chosen entry is what is passed to \<open>sfdx.force.config.set\<close>. That
  text is meant to be the alias when there is one, and here the code misses it: for the
  org with the one alias \<open>a - b\<close> and the username \<open>dashed@example.com\<close> the
  entry is \<open>a - b - dashed@example.com\<close>, and choosing it passes \<open>a\<close>, which is
  neither the alias nor the username.
\<close>

theorem setDefaultOrg_dashed_alias:
  "filterAuthInfo (example_org_env [org_dashed] (\<lambda>items. Some (last items))) [org_dashed] =
     [''a - b - dashed@example.com'']
   \<and> showQuickPick (example_org_env [org_dashed] (\<lambda>items. Some (last items)))
        (quickPickList (example_org_env [org_dashed] (\<lambda>items. Some (last items)))) =
       Some ''a - b - dashed@example.com''
   \<and> (setDefaultOrg (example_org_env [org_dashed] (\<lambda>items. Some (last items)))
        :: unit response \<times> unit ui_event list) =
       (CONTINUE (), [executeCommand ''sfdx.force.config.set'' [Arg_strings [''a'']]])
   \<and> auth_aliases org_dashed = Some [''a - b'']
   \<and> org_lead org_dashed = ''a - b''
   \<and> auth_username org_dashed = ''dashed@example.com''"
proof -
  have f: "filterAuthInfo (example_org_env [org_dashed] (\<lambda>items. Some (last items))) [org_dashed] =
     [''a - b - dashed@example.com'']"
    by (simp add: filterAuthInfo_def getDefaultDevHubUsernameorAlias_def
        example_org_env_def example_fields_def org_dashed_def truthy_def Let_def)
  have p: "showQuickPick (example_org_env [org_dashed] (\<lambda>items. Some (last items)))
        (quickPickList (example_org_env [org_dashed] (\<lambda>items. Some (last items)))) =
       Some ''a - b - dashed@example.com''"
    using f by (simp add: quickPickList_def updateOrgList_def getOrgAuthorizations_def
        example_org_env_def)
  show ?thesis
    using f p
    by (simp add: setDefaultOrg_def truthy_def split_limit1_def example_org_env_def
        example_localize_def org_dashed_def org_lead_def has_aliases_def aliases_text_def)
qed

end
